theory Spec2Isabelle
  imports Main
begin

section \<open>The QuickBooks node: values, errors and outbound requests\<close>

text \<open>
  The node handles JSON-like JavaScript values (\<open>IDataObject\<close>, \<open>any\<close>). An object is
  an association list read by its first matching key. A JavaScript number is represented
  by the string JavaScript prints for it (\<open>String(n)\<close>: \<open>100\<close>, \<open>0.5\<close>, \<open>1e+21\<close>,
  \<open>NaN\<close>; zero and minus zero both print \<open>0\<close>): the node does no arithmetic on
  numbers, it tests them in conditions and prints them in template literals.
\<close>

datatype json =
    JUndefined
  | JNull
  | JBool bool
  | JNum string
  | JStr string
  | JArr "json list"
  | JObj "(string \<times> json) list"

text \<open>
  \<open>ValidationError\<close> is the \<open>throw new Error(msg)\<close> of \<open>execute\<close>; \<open>UpstreamError\<close> is
  a failure of the HTTP call; \<open>TypeError\<close> is what JavaScript raises when a property of
  \<open>undefined\<close> or \<open>null\<close> is read, or a value that is no function is called.
\<close>

datatype error =
    ValidationError string
  | UpstreamError string
  | TypeError

record request =
  r_method :: string
  r_endpoint :: string
  r_qs :: json
  r_body :: json

text \<open>
  An action of the node takes the requests issued so far and returns its result (or the
  error thrown) together with the extended sequence of requests.
\<close>

type_synonym 'a io = "request list \<Rightarrow> (error + 'a) \<times> request list"

definition return_io :: "'a \<Rightarrow> 'a io" where
  "return_io a tr = (Inr a, tr)"

definition throw_io :: "error \<Rightarrow> 'a io" where
  "throw_io e tr = (Inl e, tr)"

definition bind_io :: "'a io \<Rightarrow> ('a \<Rightarrow> 'b io) \<Rightarrow> 'b io" where
  "bind_io m f tr = (case m tr of (Inl e, tr') \<Rightarrow> (Inl e, tr') | (Inr a, tr') \<Rightarrow> f a tr')"

definition lift_io :: "error + 'a \<Rightarrow> 'a io" where
  "lift_io r tr = (r, tr)"

text \<open>
  What the node is given: the host's parameter resolution (\<open>this.getNodeParameter(name, i)\<close>,
  taken to succeed), the company id of the credentials (\<open>oauthTokenData.realmId\<close>), the
  QuickBooks API (its answer to a request may depend on the requests already issued), and
  the helpers of \<open>GenericFunctions\<close> whose contract the specification leaves open:
  \<open>handleListing\<close> and \<open>handleBinaryData\<close>, which are functions of the arguments
  \<open>execute\<close> passes them and may issue requests, and the per-resource table by which
  \<open>populateFields\<close> translates a supplied field (resource, field name and value give the
  entries written to the body).
\<close>

record env =
  getNodeParameter :: "string \<Rightarrow> nat \<Rightarrow> json"
  realmId :: json
  api :: "request list \<Rightarrow> request \<Rightarrow> string + json"
  translateField :: "string \<Rightarrow> string \<Rightarrow> json \<Rightarrow> (string \<times> json) list"
  handleListing :: "nat \<Rightarrow> string \<Rightarrow> string \<Rightarrow> json io"
  handleBinaryData :: "json list \<Rightarrow> nat \<Rightarrow> json \<Rightarrow> string \<Rightarrow> json \<Rightarrow> json io"

subsection \<open>JavaScript primitives used by the node\<close>

text \<open>\<open>obj[key]\<close> on a value that is neither \<open>undefined\<close> nor \<open>null\<close>.\<close>

fun lookup_js :: "json \<Rightarrow> string \<Rightarrow> json" where
  "lookup_js (JObj kvs) k = (case map_of kvs k of None \<Rightarrow> JUndefined | Some v \<Rightarrow> v)"
| "lookup_js _ k = JUndefined"

text \<open>\<open>obj[key]\<close> in general: reading a property of \<open>undefined\<close> or \<open>null\<close> throws.\<close>

definition get_prop :: "json \<Rightarrow> string \<Rightarrow> error + json" where
  "get_prop v k = (if v = JUndefined \<or> v = JNull then Inl TypeError else Inr (lookup_js v k))"

text \<open>The truth value of a JavaScript value in a condition.\<close>

fun truthy :: "json \<Rightarrow> bool" where
  "truthy JUndefined = False"
| "truthy JNull = False"
| "truthy (JBool b) = b"
| "truthy (JNum n) = (n \<noteq> ''0'' \<and> n \<noteq> ''NaN'')"
| "truthy (JStr s) = (s \<noteq> [])"
| "truthy (JArr xs) = True"
| "truthy (JObj kvs) = True"

text \<open>Decimal digits of a natural number, as JavaScript prints an array or string length.\<close>

definition digit_char :: "nat \<Rightarrow> char" where
  "digit_char d = ''0123456789'' ! d"

fun digits :: "nat \<Rightarrow> string" where
  "digits n = (if n < 10 then [digit_char n] else digits (n div 10) @ [digit_char (n mod 10)])"

text \<open>\<open>x.length\<close> (a string is taken to hold one character for each code unit).\<close>

fun js_length :: "json \<Rightarrow> error + json" where
  "js_length JUndefined = Inl TypeError"
| "js_length JNull = Inl TypeError"
| "js_length (JArr xs) = Inr (JNum (digits (length xs)))"
| "js_length (JStr s) = Inr (JNum (digits (length s)))"
| "js_length v = Inr (lookup_js v ''length'')"

text \<open>lodash's \<open>isEmpty\<close>: no own keys, length zero, or not a collection at all.\<close>

fun isEmpty :: "json \<Rightarrow> bool" where
  "isEmpty (JObj kvs) = (kvs = [])"
| "isEmpty (JArr xs) = (xs = [])"
| "isEmpty (JStr s) = (s = [])"
| "isEmpty _ = True"

fun join_comma :: "string list \<Rightarrow> string" where
  "join_comma [] = []"
| "join_comma [s] = s"
| "join_comma (s # t # ss) = s @ '','' @ join_comma (t # ss)"

text \<open>The string a value becomes inside a template literal \<open>`${v}`\<close>.\<close>

fun js_String :: "json \<Rightarrow> string" where
  "js_String JUndefined = ''undefined''"
| "js_String JNull = ''null''"
| "js_String (JBool b) = (if b then ''true'' else ''false'')"
| "js_String (JNum n) = n"
| "js_String (JStr s) = s"
| "js_String (JObj kvs) = ''[object Object]''"
| "js_String (JArr xs) =
     join_comma (map (\<lambda>x. if x = JUndefined \<or> x = JNull then [] else js_String x) xs)"

text \<open>
  \<open>capitalCase\<close> of the change-case library, on the resource names it is applied to.
\<close>

definition capitalCase :: "string \<Rightarrow> string" where
  "capitalCase r =
     (if r = ''bill'' then ''Bill''
      else if r = ''customer'' then ''Customer''
      else if r = ''employee'' then ''Employee''
      else if r = ''estimate'' then ''Estimate''
      else if r = ''invoice'' then ''Invoice''
      else if r = ''item'' then ''Item''
      else if r = ''payment'' then ''Payment''
      else if r = ''vendor'' then ''Vendor''
      else r)"

declare digits.simps [simp del]

section \<open>Helpers of GenericFunctions\<close>

text \<open>
  Modelled from the spec: \<open>quickBooksApiRequest\<close> (in \<open>GenericFunctions\<close>, not among the
  sources) is the one HTTP call of the node. It issues the request, which is recorded, and
  returns the API's answer; a failure of the API is propagated unmodified, without retry.
\<close>

definition quickBooksApiRequest :: "env \<Rightarrow> string \<Rightarrow> string \<Rightarrow> json \<Rightarrow> json \<Rightarrow> json io" where
  "quickBooksApiRequest env m ep q b tr =
     (let r = \<lparr>r_method = m, r_endpoint = ep, r_qs = q, r_body = b\<rparr>
      in (case api env tr r of Inl msg \<Rightarrow> Inl (UpstreamError msg) | Inr v \<Rightarrow> Inr v, tr @ [r]))"

text \<open>The template literals \<open>`/v3/company/${companyId}/${resource}`\<close> and
  \<open>`/v3/company/${companyId}/${resource}/${id}`\<close>.\<close>

definition resource_endpoint :: "json \<Rightarrow> string \<Rightarrow> string" where
  "resource_endpoint companyId resource = ''/v3/company/'' @ js_String companyId @ ''/'' @ resource"

definition entity_endpoint :: "json \<Rightarrow> string \<Rightarrow> json \<Rightarrow> string" where
  "entity_endpoint companyId resource ident = resource_endpoint companyId resource @ ''/'' @ js_String ident"

text \<open>
  Modelled from the spec: \<open>getSyncToken\<close> (in \<open>GenericFunctions\<close>, not among the sources).
  Given the item index, the company and the resource, it issues a read of the current
  entity (\<open>GET /{resource}/{id}\<close>, the id being the item's \<open>{resource}Id\<close> parameter),
  unwraps the envelope by the capitalized resource name and extracts the \<open>SyncToken\<close>.
\<close>

definition getSyncToken :: "env \<Rightarrow> nat \<Rightarrow> json \<Rightarrow> string \<Rightarrow> json io" where
  "getSyncToken env i companyId resource =
     bind_io (quickBooksApiRequest env ''GET''
                (entity_endpoint companyId resource (getNodeParameter env (resource @ ''Id'') i))
                (JObj []) (JObj []))
       (\<lambda>resp. lift_io
          (case get_prop resp (capitalCase resource) of
             Inl e \<Rightarrow> Inl e
           | Inr entity \<Rightarrow> get_prop entity ''SyncToken''))"

text \<open>
  Modelled from the spec: \<open>getRefAndSyncToken\<close> (in \<open>GenericFunctions\<close>, not among the
  sources). One read of the current entity yields both the named reference and the
  \<open>SyncToken\<close>; the pair returned is \<open>(ref, syncToken)\<close>.
\<close>

definition getRefAndSyncToken :: "env \<Rightarrow> nat \<Rightarrow> json \<Rightarrow> string \<Rightarrow> string \<Rightarrow> (json \<times> json) io" where
  "getRefAndSyncToken env i companyId resource refName =
     bind_io (quickBooksApiRequest env ''GET''
                (entity_endpoint companyId resource (getNodeParameter env (resource @ ''Id'') i))
                (JObj []) (JObj []))
       (\<lambda>resp. lift_io
          (case get_prop resp (capitalCase resource) of
             Inl e \<Rightarrow> Inl e
           | Inr entity \<Rightarrow>
               (case get_prop entity refName of
                  Inl e \<Rightarrow> Inl e
                | Inr ref \<Rightarrow>
                    (case get_prop entity ''SyncToken'' of
                       Inl e \<Rightarrow> Inl e
                     | Inr tok \<Rightarrow> Inr (ref, tok)))))"

text \<open>
  Modelled from the spec: the nested detail that \<open>processLines\<close> (in \<open>GenericFunctions\<close>,
  not among the sources) gives a line. Each validated line becomes
  \<open>{DetailType, Amount, Description, <DetailType>: {<RefKey>: {value: <id>}}}\<close>, the
  reference key being \<open>AccountRef\<close> (with the line's account id) or \<open>ItemRef\<close> (with the
  line's item id) according to the detail type; the order of the lines is kept. For a
  detail type other than the three the specification names, no reference key is given,
  and the model adds no nested detail.
\<close>

definition line_ref :: "json \<Rightarrow> (string \<times> json) list" where
  "line_ref line =
     (let dt = lookup_js line ''DetailType'' in
      if dt = JStr ''AccountBasedExpenseLineDetail''
      then [(''AccountBasedExpenseLineDetail'',
             JObj [(''AccountRef'', JObj [(''value'', lookup_js line ''accountId'')])])]
      else if dt = JStr ''ItemBasedExpenseLineDetail''
      then [(''ItemBasedExpenseLineDetail'',
             JObj [(''ItemRef'', JObj [(''value'', lookup_js line ''itemId'')])])]
      else if dt = JStr ''SalesItemLineDetail''
      then [(''SalesItemLineDetail'',
             JObj [(''ItemRef'', JObj [(''value'', lookup_js line ''itemId'')])])]
      else [])"

text \<open>Modelled from the spec: one line of \<open>processLines\<close>, as described above.\<close>

definition processLine :: "json \<Rightarrow> json" where
  "processLine line =
     JObj ([(''DetailType'', lookup_js line ''DetailType''),
            (''Amount'', lookup_js line ''Amount''),
            (''Description'', lookup_js line ''Description'')] @ line_ref line)"

text \<open>Modelled from the spec: \<open>processLines\<close> itself, called with the body, the lines
  and the resource; it returns the transformed lines in the order given.\<close>

definition processLines :: "json \<Rightarrow> json list \<Rightarrow> string \<Rightarrow> json" where
  "processLines body lines resource = JArr (map processLine lines)"

text \<open>
  Modelled from the spec: \<open>populateFields\<close> (in \<open>GenericFunctions\<close>, not among the
  sources), called with the body built so far, the mapping of additional or update fields
  and the resource. The request envelope is built incrementally: the identity fields (Id,
  SyncToken, sparse flag), the reference fields and the lines are set first, by the branch,
  then the fields supplied by the caller are merged in, each translated by the table of
  its resource. Update requests always set \<open>sparse: true\<close> and echo the token last
  observed: the entries the body already holds are kept, and a supplied field is written
  only under a name the body does not hold yet. A mapping that is no object supplies no
  field.
\<close>

definition populateFields :: "env \<Rightarrow> json \<Rightarrow> json \<Rightarrow> string \<Rightarrow> json" where
  "populateFields env b extra resource =
     (case (b, extra) of
        (JObj kvs, JObj fs) \<Rightarrow>
          JObj (kvs @ filter (\<lambda>(k, v). k \<notin> set (map fst kvs))
                        (concat (map (\<lambda>(k, v). translateField env resource k v) fs)))
      | _ \<Rightarrow> b)"

section \<open>The branches of execute\<close>

text \<open>\<open>lines.some(line => line.DetailType === undefined || line.Amount === undefined ||
  line.Description === undefined)\<close>.\<close>

fun lines_incomplete :: "json list \<Rightarrow> error + bool" where
  "lines_incomplete [] = Inr False"
| "lines_incomplete (line # ls) =
     (case get_prop line ''DetailType'' of
        Inl e \<Rightarrow> Inl e
      | Inr dt \<Rightarrow>
          if dt = JUndefined \<or> lookup_js line ''Amount'' = JUndefined
             \<or> lookup_js line ''Description'' = JUndefined
          then Inr True
          else lines_incomplete ls)"

text \<open>The \<open>lines.forEach\<close> of bill: create.\<close>

fun check_bill_lines :: "json list \<Rightarrow> error + unit" where
  "check_bill_lines [] = Inr ()"
| "check_bill_lines (line # ls) =
     (case get_prop line ''DetailType'' of
        Inl e \<Rightarrow> Inl e
      | Inr dt \<Rightarrow>
          if dt = JStr ''AccountBasedExpenseLineDetail'' \<and> lookup_js line ''accountId'' = JUndefined
          then Inl (ValidationError ''Please enter an account ID for the associated line.'')
          else if dt = JStr ''ItemBasedExpenseLineDetail'' \<and> lookup_js line ''itemId'' = JUndefined
          then Inl (ValidationError ''Please enter an item ID for the associated line.'')
          else check_bill_lines ls)"

text \<open>The \<open>lines.forEach\<close> of estimate: create and invoice: create.\<close>

fun check_sales_lines :: "json list \<Rightarrow> error + unit" where
  "check_sales_lines [] = Inr ()"
| "check_sales_lines (line # ls) =
     (case get_prop line ''DetailType'' of
        Inl e \<Rightarrow> Inl e
      | Inr dt \<Rightarrow>
          if dt = JStr ''SalesItemLineDetail'' \<and> lookup_js line ''itemId'' = JUndefined
          then Inl (ValidationError ''Please enter an item ID for the associated line.'')
          else check_sales_lines ls)"

text \<open>
  The three checks that open bill: create, estimate: create and invoice: create, on the
  value of the \<open>Line\<close> parameter: \<open>!lines.length\<close>, \<open>lines.some(...)\<close> (which only an
  array has) and the \<open>forEach\<close> of the resource.
\<close>

definition validate_lines :: "string \<Rightarrow> (json list \<Rightarrow> error + unit) \<Rightarrow> json \<Rightarrow> error + json list" where
  "validate_lines resource check lines =
     (case js_length lines of
        Inl e \<Rightarrow> Inl e
      | Inr len \<Rightarrow>
          if \<not> truthy len
          then Inl (ValidationError (''Please enter at least one line for the '' @ resource @ ''.''))
          else (case lines of
                  JArr ls \<Rightarrow>
                    (case lines_incomplete ls of
                       Inl e \<Rightarrow> Inl e
                     | Inr incomplete \<Rightarrow>
                         if incomplete
                         then Inl (ValidationError
                                ''Please enter detail type, amount and description for every line.'')
                         else (case check ls of Inl e \<Rightarrow> Inl e | Inr u \<Rightarrow> Inr ls))
                | _ \<Rightarrow> Inl TypeError))"

text \<open>\<open>responseData = await quickBooksApiRequest.call(this, method, endpoint, qs, body);
  responseData = responseData[capitalCase(resource)];\<close>\<close>

definition request_entity :: "env \<Rightarrow> string \<Rightarrow> string \<Rightarrow> string \<Rightarrow> json \<Rightarrow> json \<Rightarrow> json io" where
  "request_entity env resource m ep q b =
     bind_io (quickBooksApiRequest env m ep q b)
       (\<lambda>resp. lift_io (get_prop resp (capitalCase resource)))"

text \<open>bill: create (reference \<open>VendorRef\<close>), estimate: create and invoice: create
  (reference \<open>CustomerRef\<close>).\<close>

definition create_with_lines ::
  "env \<Rightarrow> json \<Rightarrow> string \<Rightarrow> string \<Rightarrow> (json list \<Rightarrow> error + unit) \<Rightarrow> nat \<Rightarrow> json io" where
  "create_with_lines env companyId resource refName check i =
     bind_io (lift_io (validate_lines resource check (getNodeParameter env ''Line'' i)))
       (\<lambda>ls.
          let body0 = JObj [(refName, JObj [(''value'', getNodeParameter env refName i)])];
              body1 = JObj [(refName, JObj [(''value'', getNodeParameter env refName i)]),
                            (''Line'', processLines body0 ls resource)];
              additionalFields = getNodeParameter env ''additionalFields'' i;
              body = populateFields env body1 additionalFields resource
          in request_entity env resource ''POST'' (resource_endpoint companyId resource) (JObj []) body)"

text \<open>customer, employee, payment and vendor: create, from the body of required fields.\<close>

definition create_plain :: "env \<Rightarrow> json \<Rightarrow> string \<Rightarrow> json \<Rightarrow> nat \<Rightarrow> json io" where
  "create_plain env companyId resource body0 i =
     (let additionalFields = getNodeParameter env ''additionalFields'' i;
          body = populateFields env body0 additionalFields resource
      in request_entity env resource ''POST'' (resource_endpoint companyId resource) (JObj []) body)"

text \<open>get, without download.\<close>

definition get_entity :: "env \<Rightarrow> json \<Rightarrow> string \<Rightarrow> json \<Rightarrow> json io" where
  "get_entity env companyId resource ident =
     request_entity env resource ''GET'' (entity_endpoint companyId resource ident) (JObj []) (JObj [])"

text \<open>getAll.\<close>

definition get_all :: "env \<Rightarrow> json \<Rightarrow> string \<Rightarrow> nat \<Rightarrow> json io" where
  "get_all env companyId resource i =
     handleListing env i (''/v3/company/'' @ js_String companyId @ ''/query'') resource"

text \<open>customer, employee and vendor: update.\<close>

definition update_with_token :: "env \<Rightarrow> json \<Rightarrow> string \<Rightarrow> string \<Rightarrow> nat \<Rightarrow> json io" where
  "update_with_token env companyId resource idName i =
     bind_io (getSyncToken env i companyId resource)
       (\<lambda>syncToken.
          let body0 = JObj [(''Id'', getNodeParameter env idName i),
                            (''SyncToken'', syncToken),
                            (''sparse'', JBool True)];
              updateFields = getNodeParameter env ''updateFields'' i
          in if isEmpty updateFields
             then throw_io (ValidationError
                    (''Please enter at least one field to update for the '' @ resource @ ''.''))
             else request_entity env resource ''POST'' (resource_endpoint companyId resource) (JObj [])
                    (populateFields env body0 updateFields resource))"

text \<open>bill, estimate, invoice and payment: update.\<close>

definition update_with_ref :: "env \<Rightarrow> json \<Rightarrow> string \<Rightarrow> string \<Rightarrow> string \<Rightarrow> nat \<Rightarrow> json io" where
  "update_with_ref env companyId resource idName refName i =
     bind_io (getRefAndSyncToken env i companyId resource refName)
       (\<lambda>(ref, syncToken).
          bind_io (lift_io (get_prop ref ''name''))
            (\<lambda>ref_name.
               let body0 = JObj [(''Id'', getNodeParameter env idName i),
                                 (''SyncToken'', syncToken),
                                 (''sparse'', JBool True),
                                 (refName, JObj [(''name'', ref_name),
                                                 (''value'', lookup_js ref ''value'')])];
                   updateFields = getNodeParameter env ''updateFields'' i
               in if isEmpty updateFields
                  then throw_io (ValidationError
                         (''Please enter at least one field to update for the '' @ resource @ ''.''))
                  else request_entity env resource ''POST'' (resource_endpoint companyId resource)
                         (JObj []) (populateFields env body0 updateFields resource)))"

text \<open>invoice and payment: delete.\<close>

definition delete_entity :: "env \<Rightarrow> json \<Rightarrow> string \<Rightarrow> string \<Rightarrow> nat \<Rightarrow> json io" where
  "delete_entity env companyId resource idName i =
     (let qs = JObj [(''operation'', JStr ''delete'')] in
      bind_io (getSyncToken env i companyId resource)
        (\<lambda>syncToken.
           let body = JObj [(''Id'', getNodeParameter env idName i), (''SyncToken'', syncToken)]
           in request_entity env resource ''POST'' (resource_endpoint companyId resource) qs body))"

text \<open>invoice and payment: void.\<close>

definition void_entity :: "env \<Rightarrow> json \<Rightarrow> string \<Rightarrow> string \<Rightarrow> nat \<Rightarrow> json io" where
  "void_entity env companyId resource idName i =
     bind_io (getSyncToken env i companyId resource)
       (\<lambda>syncToken.
          let qs = JObj [(''Id'', getNodeParameter env idName i),
                         (''SyncToken'', syncToken),
                         (''operation'', JStr ''void'')]
          in request_entity env resource ''POST'' (resource_endpoint companyId resource) qs (JObj []))"

text \<open>invoice and payment: send.\<close>

definition send_entity :: "env \<Rightarrow> json \<Rightarrow> string \<Rightarrow> string \<Rightarrow> nat \<Rightarrow> json io" where
  "send_entity env companyId resource idName i =
     (let ident = getNodeParameter env idName i;
          qs = JObj [(''sendTo'', getNodeParameter env ''email'' i)]
      in request_entity env resource ''POST''
           (entity_endpoint companyId resource ident @ ''/send'') qs (JObj []))"

section \<open>The dispatcher and the loop over the input items\<close>

text \<open>
  What one pass through the body of the loop does to \<open>responseData\<close>: a branch assigns
  it, or returns from \<open>execute\<close> with the binary data, or no branch is taken and the
  variable keeps its value.
\<close>

datatype step = Assigned json | Returned json | NoBranch

definition assign :: "json io \<Rightarrow> step io" where
  "assign m = bind_io m (\<lambda>v. return_io (Assigned v))"

text \<open>estimate, invoice and payment: get.\<close>

definition get_or_download :: "env \<Rightarrow> json list \<Rightarrow> json \<Rightarrow> string \<Rightarrow> string \<Rightarrow> nat \<Rightarrow> step io" where
  "get_or_download env items companyId resource idName i =
     (let ident = getNodeParameter env idName i;
          download = getNodeParameter env ''download'' i
      in if truthy download
         then bind_io (handleBinaryData env items i companyId resource ident)
                (\<lambda>v. return_io (Returned v))
         else assign (get_entity env companyId resource ident))"

definition dispatch :: "env \<Rightarrow> json list \<Rightarrow> json \<Rightarrow> json \<Rightarrow> json \<Rightarrow> nat \<Rightarrow> step io" where
  "dispatch env items companyId resource operation i =
     (if resource = JStr ''bill'' then
        (if operation = JStr ''create'' then
           assign (create_with_lines env companyId ''bill'' ''VendorRef'' check_bill_lines i)
         else if operation = JStr ''get'' then
           assign (get_entity env companyId ''bill'' (getNodeParameter env ''billId'' i))
         else if operation = JStr ''getAll'' then
           assign (get_all env companyId ''bill'' i)
         else if operation = JStr ''update'' then
           assign (update_with_ref env companyId ''bill'' ''billId'' ''VendorRef'' i)
         else return_io NoBranch)
      else if resource = JStr ''customer'' then
        (if operation = JStr ''create'' then
           assign (create_plain env companyId ''customer''
                     (JObj [(''DisplayName'', getNodeParameter env ''displayName'' i)]) i)
         else if operation = JStr ''get'' then
           assign (get_entity env companyId ''customer'' (getNodeParameter env ''customerId'' i))
         else if operation = JStr ''getAll'' then
           assign (get_all env companyId ''customer'' i)
         else if operation = JStr ''update'' then
           assign (update_with_token env companyId ''customer'' ''customerId'' i)
         else return_io NoBranch)
      else if resource = JStr ''employee'' then
        (if operation = JStr ''create'' then
           assign (create_plain env companyId ''employee''
                     (JObj [(''FamilyName'', getNodeParameter env ''FamilyName'' i),
                            (''GivenName'', getNodeParameter env ''GivenName'' i)]) i)
         else if operation = JStr ''get'' then
           assign (get_entity env companyId ''employee'' (getNodeParameter env ''employeeId'' i))
         else if operation = JStr ''getAll'' then
           assign (get_all env companyId ''employee'' i)
         else if operation = JStr ''update'' then
           assign (update_with_token env companyId ''employee'' ''employeeId'' i)
         else return_io NoBranch)
      else if resource = JStr ''estimate'' then
        (if operation = JStr ''create'' then
           assign (create_with_lines env companyId ''estimate'' ''CustomerRef'' check_sales_lines i)
         else if operation = JStr ''get'' then
           get_or_download env items companyId ''estimate'' ''estimateId'' i
         else if operation = JStr ''getAll'' then
           assign (get_all env companyId ''estimate'' i)
         else if operation = JStr ''update'' then
           assign (update_with_ref env companyId ''estimate'' ''estimateId'' ''CustomerRef'' i)
         else return_io NoBranch)
      else if resource = JStr ''invoice'' then
        (if operation = JStr ''create'' then
           assign (create_with_lines env companyId ''invoice'' ''CustomerRef'' check_sales_lines i)
         else if operation = JStr ''delete'' then
           assign (delete_entity env companyId ''invoice'' ''invoiceId'' i)
         else if operation = JStr ''get'' then
           get_or_download env items companyId ''invoice'' ''invoiceId'' i
         else if operation = JStr ''getAll'' then
           assign (get_all env companyId ''invoice'' i)
         else if operation = JStr ''send'' then
           assign (send_entity env companyId ''invoice'' ''invoiceId'' i)
         else if operation = JStr ''update'' then
           assign (update_with_ref env companyId ''invoice'' ''invoiceId'' ''CustomerRef'' i)
         else if operation = JStr ''void'' then
           assign (void_entity env companyId ''invoice'' ''invoiceId'' i)
         else return_io NoBranch)
      else if resource = JStr ''item'' then
        (if operation = JStr ''get'' then
           assign (get_entity env companyId ''item'' (getNodeParameter env ''itemId'' i))
         else if operation = JStr ''getAll'' then
           assign (get_all env companyId ''item'' i)
         else return_io NoBranch)
      else if resource = JStr ''payment'' then
        (if operation = JStr ''create'' then
           assign (create_plain env companyId ''payment''
                     (JObj [(''CustomerRef'', JObj [(''value'', getNodeParameter env ''CustomerRef'' i)]),
                            (''TotalAmt'', getNodeParameter env ''TotalAmt'' i)]) i)
         else if operation = JStr ''delete'' then
           assign (delete_entity env companyId ''payment'' ''paymentId'' i)
         else if operation = JStr ''get'' then
           get_or_download env items companyId ''payment'' ''paymentId'' i
         else if operation = JStr ''getAll'' then
           assign (get_all env companyId ''payment'' i)
         else if operation = JStr ''send'' then
           assign (send_entity env companyId ''payment'' ''paymentId'' i)
         else if operation = JStr ''update'' then
           assign (update_with_ref env companyId ''payment'' ''paymentId'' ''CustomerRef'' i)
         else if operation = JStr ''void'' then
           assign (void_entity env companyId ''payment'' ''paymentId'' i)
         else return_io NoBranch)
      else if resource = JStr ''vendor'' then
        (if operation = JStr ''create'' then
           assign (create_plain env companyId ''vendor''
                     (JObj [(''DisplayName'', getNodeParameter env ''displayName'' i)]) i)
         else if operation = JStr ''get'' then
           assign (get_entity env companyId ''vendor'' (getNodeParameter env ''vendorId'' i))
         else if operation = JStr ''getAll'' then
           assign (get_all env companyId ''vendor'' i)
         else if operation = JStr ''update'' then
           assign (update_with_token env companyId ''vendor'' ''vendorId'' i)
         else return_io NoBranch)
      else return_io NoBranch)"

text \<open>\<open>Array.isArray(responseData) ? returnData.push(...responseData)
  : returnData.push(responseData)\<close>.\<close>

definition push_response :: "json list \<Rightarrow> json \<Rightarrow> json list" where
  "push_response returnData responseData =
     (case responseData of JArr xs \<Rightarrow> returnData @ xs | v \<Rightarrow> returnData @ [v])"

text \<open>
  The result of \<open>execute\<close>: the records of \<open>returnData\<close>, which the host wraps
  (\<open>[this.helpers.returnJsonArray(returnData)]\<close>), or what \<open>handleBinaryData\<close> returned.
\<close>

datatype exec_output = JsonOutput "json list" | BinaryOutput json

text \<open>
  The loop \<open>for (let i = 0; i < items.length; i++)\<close>, from index \<open>i\<close> with the current
  values of \<open>responseData\<close> and \<open>returnData\<close>. The resource and the operation are those
  read before the loop.
\<close>

function exec_loop ::
  "env \<Rightarrow> json list \<Rightarrow> json \<Rightarrow> json \<Rightarrow> json \<Rightarrow> nat \<Rightarrow> json \<Rightarrow> json list \<Rightarrow> exec_output io" where
  "exec_loop env items companyId resource operation i responseData returnData tr =
     (if i < length items then
        (case dispatch env items companyId resource operation i tr of
           (Inl e, tr') \<Rightarrow> (Inl e, tr')
         | (Inr (Returned v), tr') \<Rightarrow> (Inr (BinaryOutput v), tr')
         | (Inr (Assigned v), tr') \<Rightarrow>
             exec_loop env items companyId resource operation (Suc i) v
               (push_response returnData v) tr'
         | (Inr NoBranch, tr') \<Rightarrow>
             exec_loop env items companyId resource operation (Suc i) responseData
               (push_response returnData responseData) tr')
      else (Inr (JsonOutput returnData), tr))"
  by pat_completeness auto
termination
  by (relation "measure (\<lambda>(env, items, companyId, resource, operation, i, rest). length items - i)")
     auto

declare exec_loop.simps [simp del]

text \<open>
  \<open>execute\<close>: the resource and the operation are read once, at index 0
  (\<open>this.getNodeParameter('resource', 0)\<close>), \<open>responseData\<close> starts undefined and
  \<open>returnData\<close> empty.
\<close>

definition execute :: "env \<Rightarrow> json list \<Rightarrow> exec_output io" where
  "execute env items =
     (let resource = getNodeParameter env ''resource'' 0;
          operation = getNodeParameter env ''operation'' 0;
          companyId = realmId env
      in exec_loop env items companyId resource operation 0 JUndefined [])"

section \<open>Tables read off the dispatcher\<close>

text \<open>The resources with an update branch, and the reference each update branch reads
  together with the token (\<open>getRefAndSyncToken\<close>), if any.\<close>

definition update_resources :: "string list" where
  "update_resources =
     [''bill'', ''customer'', ''employee'', ''estimate'', ''invoice'', ''payment'', ''vendor'']"

definition update_ref_name :: "string \<Rightarrow> string option" where
  "update_ref_name resource =
     (if resource = ''bill'' then Some ''VendorRef''
      else if resource = ''estimate'' \<or> resource = ''invoice'' \<or> resource = ''payment''
      then Some ''CustomerRef''
      else None)"

text \<open>The resources created from lines, with the reference and the \<open>forEach\<close> check of
  each create branch.\<close>

definition line_resources :: "string list" where
  "line_resources = [''bill'', ''estimate'', ''invoice'']"

definition create_ref_name :: "string \<Rightarrow> string" where
  "create_ref_name resource = (if resource = ''bill'' then ''VendorRef'' else ''CustomerRef'')"

definition create_line_check :: "string \<Rightarrow> json list \<Rightarrow> error + unit" where
  "create_line_check resource =
     (if resource = ''bill'' then check_bill_lines else check_sales_lines)"

text \<open>The resources whose get branch reads the \<open>download\<close> flag.\<close>

definition download_resources :: "string list" where
  "download_resources = [''estimate'', ''invoice'', ''payment'']"


text \<open>Every (resource, operation) pair for which \<open>execute\<close> has a branch.\<close>

definition wired_pairs :: "(string \<times> string) list" where
  "wired_pairs =
     [(''bill'', ''create''), (''bill'', ''get''), (''bill'', ''getAll''), (''bill'', ''update''),
      (''customer'', ''create''), (''customer'', ''get''), (''customer'', ''getAll''),
      (''customer'', ''update''),
      (''employee'', ''create''), (''employee'', ''get''), (''employee'', ''getAll''),
      (''employee'', ''update''),
      (''estimate'', ''create''), (''estimate'', ''get''), (''estimate'', ''getAll''),
      (''estimate'', ''update''),
      (''invoice'', ''create''), (''invoice'', ''delete''), (''invoice'', ''get''),
      (''invoice'', ''getAll''), (''invoice'', ''send''), (''invoice'', ''update''),
      (''invoice'', ''void''),
      (''item'', ''get''), (''item'', ''getAll''),
      (''payment'', ''create''), (''payment'', ''delete''), (''payment'', ''get''),
      (''payment'', ''getAll''), (''payment'', ''send''), (''payment'', ''update''),
      (''payment'', ''void''),
      (''vendor'', ''create''), (''vendor'', ''get''), (''vendor'', ''getAll''),
      (''vendor'', ''update'')]"

definition wired :: "json \<Rightarrow> json \<Rightarrow> bool" where
  "wired resource operation =
     ((resource, operation) \<in> set (map (\<lambda>(r, operation). (JStr r, JStr operation)) wired_pairs))"

text \<open>The read that the token resolvers issue for item \<open>i\<close>.\<close>

definition read_request :: "env \<Rightarrow> json \<Rightarrow> string \<Rightarrow> nat \<Rightarrow> request" where
  "read_request env companyId resource i =
     \<lparr>r_method = ''GET'',
      r_endpoint = entity_endpoint companyId resource (getNodeParameter env (resource @ ''Id'') i),
      r_qs = JObj [], r_body = JObj []\<rparr>"

text \<open>The mutation of an update, delete or void: \<open>POST\<close> on the resource's endpoint.\<close>

definition mutation_request :: "json \<Rightarrow> string \<Rightarrow> json \<Rightarrow> json \<Rightarrow> request" where
  "mutation_request companyId resource q b =
     \<lparr>r_method = ''POST'', r_endpoint = resource_endpoint companyId resource,
      r_qs = q, r_body = b\<rparr>"




section \<open>The dispatcher as the specification words it\<close>

text \<open>
  The specification's dispatcher reads, for each input item, that item's resource tag and
  operation tag. This loop differs from \<open>exec_loop\<close> in that alone.
\<close>

function exec_loop_per_item ::
  "env \<Rightarrow> json list \<Rightarrow> json \<Rightarrow> nat \<Rightarrow> json \<Rightarrow> json list \<Rightarrow> exec_output io" where
  "exec_loop_per_item env items companyId i responseData returnData tr =
     (if i < length items then
        (case dispatch env items companyId (getNodeParameter env ''resource'' i)
                (getNodeParameter env ''operation'' i) i tr of
           (Inl e, tr') \<Rightarrow> (Inl e, tr')
         | (Inr (Returned v), tr') \<Rightarrow> (Inr (BinaryOutput v), tr')
         | (Inr (Assigned v), tr') \<Rightarrow>
             exec_loop_per_item env items companyId (Suc i) v (push_response returnData v) tr'
         | (Inr NoBranch, tr') \<Rightarrow>
             exec_loop_per_item env items companyId (Suc i) responseData
               (push_response returnData responseData) tr')
      else (Inr (JsonOutput returnData), tr))"
  by pat_completeness auto
termination
  by (relation "measure (\<lambda>(env, items, companyId, i, rest). length items - i)") auto

declare exec_loop_per_item.simps [simp del]

definition execute_per_item :: "env \<Rightarrow> json list \<Rightarrow> exec_output io" where
  "execute_per_item env items = exec_loop_per_item env items (realmId env) 0 JUndefined []"

text \<open>The parameters of a run in which every item carries the resource tag and the
  operation tag of the first item, and its own value of every other parameter.\<close>

definition first_item_tags :: "(string \<Rightarrow> nat \<Rightarrow> json) \<Rightarrow> string \<Rightarrow> nat \<Rightarrow> json" where
  "first_item_tags g n i = (if n = ''resource'' \<or> n = ''operation'' then g n 0 else g n i)"

section \<open>Sample environments\<close>

text \<open>Parameters given per item, as an association list for each item.\<close>

definition item_params :: "(string \<times> json) list list \<Rightarrow> string \<Rightarrow> nat \<Rightarrow> json" where
  "item_params ps n i =
     (if i < length ps then (case map_of (ps ! i) n of None \<Rightarrow> JUndefined | Some v \<Rightarrow> v)
      else JUndefined)"

definition resource_keys :: "string list" where
  "resource_keys =
     [''Bill'', ''Customer'', ''Employee'', ''Estimate'', ''Invoice'', ''Item'', ''Payment'', ''Vendor'']"

text \<open>An API that answers every request with the given entity, in an envelope that
  carries it under every resource key.\<close>

definition fixed_api :: "json \<Rightarrow> request list \<Rightarrow> request \<Rightarrow> string + json" where
  "fixed_api entity tr r = Inr (JObj (map (\<lambda>k. (k, entity)) resource_keys))"

text \<open>An API whose entity carries, as its \<open>SyncToken\<close>, the number of requests it has
  answered: the token changes with every call.\<close>

definition counting_api :: "request list \<Rightarrow> request \<Rightarrow> string + json" where
  "counting_api tr r =
     Inr (JObj (map (\<lambda>k. (k, JObj [(''SyncToken'', JNum (digits (length tr)))])) resource_keys))"

text \<open>A table that passes every supplied field through as it is.\<close>

definition plain_fields :: "string \<Rightarrow> string \<Rightarrow> json \<Rightarrow> (string \<times> json) list" where
  "plain_fields resource k v = [(k, v)]"

definition sample_env ::
  "(string \<times> json) list list \<Rightarrow> (request list \<Rightarrow> request \<Rightarrow> string + json) \<Rightarrow> env" where
  "sample_env ps a =
     \<lparr>getNodeParameter = item_params ps,
      realmId = JStr ''c1'',
      api = a,
      translateField = plain_fields,
      handleListing = (\<lambda>i ep resource. return_io (JArr [])),
      handleBinaryData = (\<lambda>items i companyId resource ident. return_io (JStr ''pdf''))\<rparr>"

definition sample_entity :: json where
  "sample_entity =
     JObj [(''Id'', JStr ''9''), (''SyncToken'', JStr ''3''),
           (''CustomerRef'', JObj [(''name'', JStr ''Ann''), (''value'', JStr ''7'')]),
           (''VendorRef'', JObj [(''name'', JStr ''Bob''), (''value'', JStr ''8'')])]"

section \<open>Lemmas on values and on the field merge\<close>

lemma digits_small: "n < 10 \<Longrightarrow> digits n = [digit_char n]"
  by (subst digits.simps) simp

lemma digits_large: "\<not> n < 10 \<Longrightarrow> digits n = digits (n div 10) @ [digit_char (n mod 10)]"
  by (subst digits.simps) simp

lemma digits_not_Nil: "digits n \<noteq> []"
  by (subst digits.simps) simp

lemma digit_char_facts:
  "\<forall>d<10. (digit_char d = CHR ''0'') = (d = 0) \<and> digit_char d \<noteq> CHR ''N''"
  by (simp add: digit_char_def eval_nat_numeral All_less_Suc)

lemma digit_char_zero: "n < 10 \<Longrightarrow> (digit_char n = CHR ''0'') = (n = 0)"
  using digit_char_facts by blast

lemma digit_char_not_N: "n < 10 \<Longrightarrow> digit_char n \<noteq> CHR ''N''"
  using digit_char_facts by blast

lemma digits_zero_iff [simp]: "digits n = ''0'' \<longleftrightarrow> n = 0"
proof (cases "n < 10")
  case True
  then show ?thesis by (simp add: digits_small digit_char_zero)
next
  case False
  then show ?thesis by (simp add: digits_large digits_not_Nil)
qed

lemma digits_not_NaN [simp]: "digits n \<noteq> ''NaN''"
proof (cases "n < 10")
  case True
  then show ?thesis by (simp add: digits_small)
next
  case False
  have "digit_char (n mod 10) \<noteq> CHR ''N''"
    by (intro digit_char_not_N) simp
  then have "last (digits n) \<noteq> last ''NaN''"
    using False by (simp add: digits_large)
  then show ?thesis by metis
qed

lemma truthy_digits: "truthy (JNum (digits n)) = (n \<noteq> 0)"
  by simp


lemma populateFields_params:
  "populateFields (env\<lparr>getNodeParameter := g\<rparr>) = populateFields env"
  by (intro ext) (simp add: populateFields_def split: json.splits)

section \<open>Lemmas on the actions\<close>

lemma lookup_js_defined_obj: "lookup_js v k \<noteq> JUndefined \<Longrightarrow> \<exists>kvs. v = JObj kvs"
  by (cases v) auto

lemma snd_request_entity:
  "snd (request_entity env resource m ep q b tr) =
     tr @ [\<lparr>r_method = m, r_endpoint = ep, r_qs = q, r_body = b\<rparr>]"
  by (simp add: request_entity_def bind_io_def quickBooksApiRequest_def lift_io_def Let_def
      split: sum.splits)

lemma snd_assign: "snd (assign m tr) = snd (m tr)"
  by (simp add: assign_def bind_io_def return_io_def split: prod.splits sum.splits)

lemma fst_assign: "fst (assign m tr) = map_sum id Assigned (fst (m tr))"
  by (simp add: assign_def bind_io_def return_io_def split: prod.splits sum.splits)

lemma getSyncToken_ok:
  assumes "api env tr (read_request env companyId resource i) = Inr resp"
      and "lookup_js (lookup_js resp (capitalCase resource)) ''SyncToken'' = tok"
      and "tok \<noteq> JUndefined"
  shows "getSyncToken env i companyId resource tr
         = (Inr tok, tr @ [read_request env companyId resource i])"
proof -
  from assms obtain kvs where e: "lookup_js resp (capitalCase resource) = JObj kvs"
    using lookup_js_defined_obj by blast
  then obtain kvs' where r: "resp = JObj kvs'"
    using lookup_js_defined_obj[of resp "capitalCase resource"] by auto
  show ?thesis
    using assms e r
    by (simp add: getSyncToken_def bind_io_def quickBooksApiRequest_def read_request_def
        lift_io_def get_prop_def Let_def)
qed

lemma get_prop_Inr: "get_prop v k = Inr x \<Longrightarrow> x = lookup_js v k \<and> v \<noteq> JUndefined \<and> v \<noteq> JNull"
  by (auto simp: get_prop_def split: if_splits)

lemma get_prop_Inl: "get_prop v k = Inl e \<Longrightarrow> e = TypeError"
  by (auto simp: get_prop_def split: if_splits)

lemma get_prop_obj [simp]: "get_prop (JObj kvs) k = Inr (lookup_js (JObj kvs) k)"
  by (simp add: get_prop_def)

lemma quickBooksApiRequest_eq:
  "quickBooksApiRequest env m ep q b tr =
     (case api env tr \<lparr>r_method = m, r_endpoint = ep, r_qs = q, r_body = b\<rparr> of
        Inl msg \<Rightarrow> Inl (UpstreamError msg) | Inr v \<Rightarrow> Inr v,
      tr @ [\<lparr>r_method = m, r_endpoint = ep, r_qs = q, r_body = b\<rparr>])"
  by (simp add: quickBooksApiRequest_def Let_def)

lemma getSyncToken_cases:
  obtains (failed) e where
      "getSyncToken env i companyId resource tr = (Inl e, tr @ [read_request env companyId resource i])"
      "\<forall>m. e \<noteq> ValidationError m"
  | (resolved) resp where
      "api env tr (read_request env companyId resource i) = Inr resp"
      "getSyncToken env i companyId resource tr =
         (Inr (lookup_js (lookup_js resp (capitalCase resource)) ''SyncToken''),
          tr @ [read_request env companyId resource i])"
proof (cases "api env tr (read_request env companyId resource i)")
  case (Inl msg)
  then have "getSyncToken env i companyId resource tr
             = (Inl (UpstreamError msg), tr @ [read_request env companyId resource i])"
    by (simp add: getSyncToken_def bind_io_def quickBooksApiRequest_eq read_request_def)
  then show ?thesis using failed by simp
next
  case (Inr resp)
  show ?thesis
  proof (cases "get_prop resp (capitalCase resource)")
    case a: (Inl e)
    with Inr have "getSyncToken env i companyId resource tr
             = (Inl TypeError, tr @ [read_request env companyId resource i])"
      using get_prop_Inl[OF a]
      by (simp add: getSyncToken_def bind_io_def quickBooksApiRequest_eq read_request_def lift_io_def)
    then show ?thesis using failed by simp
  next
    case b: (Inr entity)
    show ?thesis
    proof (cases "get_prop entity ''SyncToken''")
      case c: (Inl e)
      with Inr b have "getSyncToken env i companyId resource tr
             = (Inl TypeError, tr @ [read_request env companyId resource i])"
        using get_prop_Inl[OF c]
        by (simp add: getSyncToken_def bind_io_def quickBooksApiRequest_eq read_request_def lift_io_def)
      then show ?thesis using failed by simp
    next
      case d: (Inr tok)
      with Inr b have "getSyncToken env i companyId resource tr
             = (Inr (lookup_js (lookup_js resp (capitalCase resource)) ''SyncToken''),
                tr @ [read_request env companyId resource i])"
        using get_prop_Inr[OF d] get_prop_Inr[OF b]
        by (simp add: getSyncToken_def bind_io_def quickBooksApiRequest_eq read_request_def lift_io_def)
      then show ?thesis using resolved Inr by simp
    qed
  qed
qed

lemma getSyncToken_obj:
  assumes "api env tr (read_request env companyId resource i) = Inr resp"
      and "lookup_js resp (capitalCase resource) = JObj ekvs"
  shows "getSyncToken env i companyId resource tr
         = (Inr (lookup_js (JObj ekvs) ''SyncToken''), tr @ [read_request env companyId resource i])"
proof -
  obtain kvs where r: "resp = JObj kvs"
    using lookup_js_defined_obj[of resp "capitalCase resource"] assms(2) by auto
  show ?thesis
    using assms r
    by (simp add: getSyncToken_def bind_io_def quickBooksApiRequest_eq read_request_def
        lift_io_def del: lookup_js.simps)
qed

lemma getRefAndSyncToken_cases:
  obtains (failed) e where
      "getRefAndSyncToken env i companyId resource refName tr
         = (Inl e, tr @ [read_request env companyId resource i])"
      "\<forall>m. e \<noteq> ValidationError m"
  | (resolved) resp where
      "api env tr (read_request env companyId resource i) = Inr resp"
      "getRefAndSyncToken env i companyId resource refName tr =
         (Inr (lookup_js (lookup_js resp (capitalCase resource)) refName,
               lookup_js (lookup_js resp (capitalCase resource)) ''SyncToken''),
          tr @ [read_request env companyId resource i])"
proof (cases "api env tr (read_request env companyId resource i)")
  case (Inl msg)
  then have "getRefAndSyncToken env i companyId resource refName tr
             = (Inl (UpstreamError msg), tr @ [read_request env companyId resource i])"
    by (simp add: getRefAndSyncToken_def bind_io_def quickBooksApiRequest_eq read_request_def)
  then show ?thesis using failed by simp
next
  case (Inr resp)
  show ?thesis
  proof (cases "get_prop resp (capitalCase resource)")
    case a: (Inl e)
    with Inr have "getRefAndSyncToken env i companyId resource refName tr
             = (Inl TypeError, tr @ [read_request env companyId resource i])"
      using get_prop_Inl[OF a]
      by (simp add: getRefAndSyncToken_def bind_io_def quickBooksApiRequest_eq read_request_def
          lift_io_def)
    then show ?thesis using failed by simp
  next
    case b: (Inr entity)
    show ?thesis
    proof (cases "entity = JUndefined \<or> entity = JNull")
      case True
      with Inr b have "getRefAndSyncToken env i companyId resource refName tr
             = (Inl TypeError, tr @ [read_request env companyId resource i])"
        by (auto simp add: getRefAndSyncToken_def bind_io_def quickBooksApiRequest_eq
            read_request_def lift_io_def get_prop_def)
      then show ?thesis using failed by simp
    next
      case False
      with Inr b have "getRefAndSyncToken env i companyId resource refName tr =
         (Inr (lookup_js (lookup_js resp (capitalCase resource)) refName,
               lookup_js (lookup_js resp (capitalCase resource)) ''SyncToken''),
          tr @ [read_request env companyId resource i])"
        using get_prop_Inr[OF b]
        by (simp add: getRefAndSyncToken_def bind_io_def quickBooksApiRequest_eq
            read_request_def lift_io_def get_prop_def)
      then show ?thesis using resolved Inr by simp
    qed
  qed
qed

lemma getRefAndSyncToken_obj:
  assumes "api env tr (read_request env companyId resource i) = Inr resp"
      and "lookup_js resp (capitalCase resource) = JObj ekvs"
  shows "getRefAndSyncToken env i companyId resource refName tr
         = (Inr (lookup_js (JObj ekvs) refName, lookup_js (JObj ekvs) ''SyncToken''),
            tr @ [read_request env companyId resource i])"
proof -
  obtain kvs where r: "resp = JObj kvs"
    using lookup_js_defined_obj[of resp "capitalCase resource"] assms(2) by auto
  show ?thesis
    using assms r
    by (simp add: getRefAndSyncToken_def bind_io_def quickBooksApiRequest_eq read_request_def
        lift_io_def del: lookup_js.simps)
qed


lemma update_with_token_cases:
  obtains (failed) e where
      "update_with_token env companyId resource idName i tr
         = (Inl e, tr @ [read_request env companyId resource i])"
  | (sent) resp where
      "api env tr (read_request env companyId resource i) = Inr resp"
      "\<not> isEmpty (getNodeParameter env ''updateFields'' i)"
      "snd (update_with_token env companyId resource idName i tr) =
         tr @ [read_request env companyId resource i,
               mutation_request companyId resource (JObj [])
                 (populateFields env
                    (JObj [(''Id'', getNodeParameter env idName i),
                           (''SyncToken'', lookup_js (lookup_js resp (capitalCase resource)) ''SyncToken''),
                           (''sparse'', JBool True)])
                    (getNodeParameter env ''updateFields'' i) resource)]"
proof (cases rule: getSyncToken_cases[of env i companyId resource tr])
  case (failed e)
  then have "update_with_token env companyId resource idName i tr
         = (Inl e, tr @ [read_request env companyId resource i])"
    by (simp add: update_with_token_def bind_io_def)
  then show ?thesis using that(1) by simp
next
  case (resolved resp)
  show ?thesis
  proof (cases "isEmpty (getNodeParameter env ''updateFields'' i)")
    case True
    with resolved have "update_with_token env companyId resource idName i tr
         = (Inl (ValidationError (''Please enter at least one field to update for the '' @ resource @ ''.'')),
            tr @ [read_request env companyId resource i])"
      by (simp add: update_with_token_def bind_io_def throw_io_def)
    then show ?thesis using that(1) by simp
  next
    case False
    with resolved show ?thesis
      using that(2)[of resp]
      by (simp add: update_with_token_def bind_io_def snd_request_entity mutation_request_def)
  qed
qed

lemma update_with_token_empty:
  assumes "isEmpty (getNodeParameter env ''updateFields'' i)"
  shows "snd (update_with_token env companyId resource idName i tr)
           = tr @ [read_request env companyId resource i]"
    and "\<exists>e. fst (update_with_token env companyId resource idName i tr) = Inl e"
    and "api env tr (read_request env companyId resource i) = Inr resp \<Longrightarrow>
         lookup_js resp (capitalCase resource) = JObj ekvs \<Longrightarrow>
         fst (update_with_token env companyId resource idName i tr) =
           Inl (ValidationError (''Please enter at least one field to update for the '' @ resource @ ''.''))"
proof -
  show "snd (update_with_token env companyId resource idName i tr)
           = tr @ [read_request env companyId resource i]"
    using assms
    by (cases rule: update_with_token_cases[of env companyId resource idName i tr]) simp_all
  show "\<exists>e. fst (update_with_token env companyId resource idName i tr) = Inl e"
    using assms
    by (cases rule: update_with_token_cases[of env companyId resource idName i tr]) simp_all
  show "fst (update_with_token env companyId resource idName i tr) =
           Inl (ValidationError (''Please enter at least one field to update for the '' @ resource @ ''.''))"
    if "api env tr (read_request env companyId resource i) = Inr resp"
      and "lookup_js resp (capitalCase resource) = JObj ekvs"
    using getSyncToken_obj[OF that] assms
    by (simp add: update_with_token_def bind_io_def throw_io_def del: lookup_js.simps)
qed

lemma update_with_ref_cases:
  obtains (failed) e where
      "update_with_ref env companyId resource idName refName i tr
         = (Inl e, tr @ [read_request env companyId resource i])"
  | (sent) resp where
      "api env tr (read_request env companyId resource i) = Inr resp"
      "\<not> isEmpty (getNodeParameter env ''updateFields'' i)"
      "snd (update_with_ref env companyId resource idName refName i tr) =
         tr @ [read_request env companyId resource i,
               mutation_request companyId resource (JObj [])
                 (populateFields env
                    (JObj [(''Id'', getNodeParameter env idName i),
                           (''SyncToken'', lookup_js (lookup_js resp (capitalCase resource)) ''SyncToken''),
                           (''sparse'', JBool True),
                           (refName,
                            JObj [(''name'', lookup_js (lookup_js (lookup_js resp (capitalCase resource)) refName) ''name''),
                                  (''value'', lookup_js (lookup_js (lookup_js resp (capitalCase resource)) refName) ''value'')])])
                    (getNodeParameter env ''updateFields'' i) resource)]"
proof (cases rule: getRefAndSyncToken_cases[of env i companyId resource refName tr])
  case (failed e)
  then have "update_with_ref env companyId resource idName refName i tr
         = (Inl e, tr @ [read_request env companyId resource i])"
    by (simp add: update_with_ref_def bind_io_def)
  then show ?thesis using that(1) by simp
next
  case (resolved resp)
  let ?ref = "lookup_js (lookup_js resp (capitalCase resource)) refName"
  show ?thesis
  proof (cases "get_prop ?ref ''name''")
    case (Inl e)
    with resolved have "update_with_ref env companyId resource idName refName i tr
         = (Inl e, tr @ [read_request env companyId resource i])"
      by (simp add: update_with_ref_def bind_io_def lift_io_def)
    then show ?thesis using that(1) by simp
  next
    case (Inr nm)
    then have nm: "nm = lookup_js ?ref ''name''"
      using get_prop_Inr by blast
    show ?thesis
    proof (cases "isEmpty (getNodeParameter env ''updateFields'' i)")
      case True
      with resolved Inr have "update_with_ref env companyId resource idName refName i tr
         = (Inl (ValidationError (''Please enter at least one field to update for the '' @ resource @ ''.'')),
            tr @ [read_request env companyId resource i])"
        by (simp add: update_with_ref_def bind_io_def throw_io_def lift_io_def)
      then show ?thesis using that(1) by simp
    next
      case False
      with resolved Inr nm show ?thesis
        using that(2)[of resp]
        by (simp add: update_with_ref_def bind_io_def snd_request_entity mutation_request_def
            lift_io_def)
    qed
  qed
qed

lemma update_with_ref_empty:
  assumes "isEmpty (getNodeParameter env ''updateFields'' i)"
  shows "snd (update_with_ref env companyId resource idName refName i tr)
           = tr @ [read_request env companyId resource i]"
    and "\<exists>e. fst (update_with_ref env companyId resource idName refName i tr) = Inl e"
    and "api env tr (read_request env companyId resource i) = Inr resp \<Longrightarrow>
         lookup_js resp (capitalCase resource) = JObj ekvs \<Longrightarrow>
         lookup_js (JObj ekvs) refName = JObj rkvs \<Longrightarrow>
         fst (update_with_ref env companyId resource idName refName i tr) =
           Inl (ValidationError (''Please enter at least one field to update for the '' @ resource @ ''.''))"
proof -
  show "snd (update_with_ref env companyId resource idName refName i tr)
           = tr @ [read_request env companyId resource i]"
    using assms
    by (cases rule: update_with_ref_cases[of env companyId resource idName refName i tr]) simp_all
  show "\<exists>e. fst (update_with_ref env companyId resource idName refName i tr) = Inl e"
    using assms
    by (cases rule: update_with_ref_cases[of env companyId resource idName refName i tr]) simp_all
  show "fst (update_with_ref env companyId resource idName refName i tr) =
           Inl (ValidationError (''Please enter at least one field to update for the '' @ resource @ ''.''))"
    if "api env tr (read_request env companyId resource i) = Inr resp"
      and "lookup_js resp (capitalCase resource) = JObj ekvs"
      and "lookup_js (JObj ekvs) refName = JObj rkvs"
    using getRefAndSyncToken_obj[OF that(1,2)] assms that(3)
    by (simp add: update_with_ref_def bind_io_def throw_io_def lift_io_def del: lookup_js.simps)
qed

lemma dispatch_update:
  assumes "resource \<in> set update_resources"
  shows "dispatch env items companyId (JStr resource) (JStr ''update'') i =
           assign (case update_ref_name resource of
                     None \<Rightarrow> update_with_token env companyId resource (resource @ ''Id'') i
                   | Some refName \<Rightarrow> update_with_ref env companyId resource (resource @ ''Id'') refName i)"
  using assms by (auto simp: update_resources_def dispatch_def update_ref_name_def)

lemma read_request_method [simp]: "r_method (read_request env companyId resource i) = ''GET''"
  by (simp add: read_request_def)









lemmas sample_defs =
  sample_env_def item_params_def fixed_api_def counting_api_def plain_fields_def populateFields_def
  sample_entity_def resource_keys_def read_request_def mutation_request_def
  entity_endpoint_def resource_endpoint_def capitalCase_def

lemmas run_defs =
  dispatch_def assign_def bind_io_def return_io_def throw_io_def lift_io_def
  quickBooksApiRequest_def request_entity_def get_prop_def
  getSyncToken_def getRefAndSyncToken_def

section \<open>Lemmas on the create branches\<close>

lemma dispatch_create_lines:
  assumes "resource \<in> set line_resources"
  shows "dispatch env items companyId (JStr resource) (JStr ''create'') i =
           assign (create_with_lines env companyId resource (create_ref_name resource)
                     (create_line_check resource) i)"
  using assms
  by (auto simp: line_resources_def dispatch_def create_ref_name_def create_line_check_def)

lemma lines_incomplete_iff:
  assumes "\<forall>l\<in>set ls. l \<noteq> JUndefined \<and> l \<noteq> JNull"
  shows "lines_incomplete ls =
           Inr (\<exists>l\<in>set ls. lookup_js l ''DetailType'' = JUndefined
                  \<or> lookup_js l ''Amount'' = JUndefined
                  \<or> lookup_js l ''Description'' = JUndefined)"
  using assms by (induction ls) (auto simp: get_prop_def simp del: lookup_js.simps)

lemma assign_Inl: "m tr = (Inl e, tr') \<Longrightarrow> assign m tr = (Inl e, tr')"
  by (simp add: assign_def bind_io_def)

lemma create_with_lines_invalid:
  assumes "validate_lines resource check (getNodeParameter env ''Line'' i) = Inl e"
  shows "create_with_lines env companyId resource refName check i tr = (Inl e, tr)"
  using assms by (simp add: create_with_lines_def bind_io_def lift_io_def)






section \<open>Lemmas on the dispatcher and the loop\<close>

lemma dispatch_unwired:
  assumes "\<not> wired resource operation"
  shows "dispatch env items companyId resource operation i = return_io NoBranch"
  using assms unfolding wired_def wired_pairs_def dispatch_def
  by (simp split: if_splits)

lemma exec_loop_unwired:
  assumes "\<not> wired resource operation"
  shows "exec_loop env items companyId resource operation i JUndefined returnData tr =
           (Inr (JsonOutput (returnData @ replicate (length items - i) JUndefined)), tr)"
proof (induction "length items - i" arbitrary: i returnData)
  case 0
  then show ?case by (simp add: exec_loop.simps)
next
  case (Suc n)
  then have lt: "i < length items" and n: "n = length items - Suc i" by auto
  have "exec_loop env items companyId resource operation i JUndefined returnData tr =
        exec_loop env items companyId resource operation (Suc i) JUndefined
          (push_response returnData JUndefined) tr"
    using lt by (subst exec_loop.simps) (simp add: dispatch_unwired[OF assms] return_io_def)
  also have "\<dots> = (Inr (JsonOutput (push_response returnData JUndefined
                        @ replicate (length items - Suc i) JUndefined)), tr)"
    using Suc.hyps(1)[OF n] .
  also have "push_response returnData JUndefined @ replicate (length items - Suc i) JUndefined
             = returnData @ replicate (length items - i) JUndefined"
    using lt by (simp add: push_response_def Suc_diff_Suc replicate_Suc[symmetric] del: replicate_Suc)
  finally show ?case .
qed


lemma assign_not_NoBranch: "fst (assign m tr) \<noteq> Inr NoBranch"
  by (simp add: assign_def bind_io_def return_io_def split: prod.splits sum.splits)

lemma get_or_download_not_NoBranch:
  "fst (get_or_download env items companyId resource idName i tr) \<noteq> Inr NoBranch"
  by (simp add: get_or_download_def assign_not_NoBranch Let_def bind_io_def return_io_def
      split: prod.splits sum.splits)

lemma wired_has_branch:
  assumes "wired resource operation"
  shows "fst (dispatch env items companyId resource operation i tr) \<noteq> Inr NoBranch"
proof -
  from assms have "(resource, operation) \<in> set (map (\<lambda>(r, operation). (JStr r, JStr operation)) wired_pairs)"
    by (simp add: wired_def)
  then show ?thesis
    unfolding wired_pairs_def
    by (simp, elim disjE conjE; simp add: dispatch_def assign_not_NoBranch get_or_download_not_NoBranch)
qed

lemma dispatch_download:
  assumes "resource \<in> set download_resources"
  shows "dispatch env items companyId (JStr resource) (JStr ''get'') i =
           get_or_download env items companyId resource (resource @ ''Id'') i"
  using assms by (auto simp: download_resources_def dispatch_def)

lemma get_or_download_truthy:
  assumes "truthy (getNodeParameter env ''download'' i)"
  shows "get_or_download env items companyId resource idName i tr =
           (case handleBinaryData env items i companyId resource (getNodeParameter env idName i) tr of
              (Inl e, tr') \<Rightarrow> (Inl e, tr')
            | (Inr v, tr') \<Rightarrow> (Inr (Returned v), tr'))"
  using assms by (simp add: get_or_download_def bind_io_def return_io_def split: prod.splits sum.splits)

lemma exec_loop_download_here:
  assumes "resource \<in> set download_resources"
      and "i < length items"
      and "truthy (getNodeParameter env ''download'' i)"
  shows "exec_loop env items companyId (JStr resource) (JStr ''get'') i responseData returnData tr =
           (case handleBinaryData env items i companyId resource
                   (getNodeParameter env (resource @ ''Id'') i) tr of
              (Inl e, tr') \<Rightarrow> (Inl e, tr')
            | (Inr v, tr') \<Rightarrow> (Inr (BinaryOutput v), tr'))"
  using assms(2)
  by (subst exec_loop.simps)
     (simp add: dispatch_download[OF assms(1)] get_or_download_truthy[OF assms(3)]
        split: prod.splits sum.splits)

lemma exec_loop_download_before:
  assumes "resource \<in> set download_resources"
      and "i < length items"
      and "truthy (getNodeParameter env ''download'' i)"
      and "j \<le> i"
  shows "fst (exec_loop env items companyId (JStr resource) (JStr ''get'') j responseData returnData tr)
           \<noteq> Inr (JsonOutput out)"
  using assms(4)
proof (induction "i - j" arbitrary: j responseData returnData tr)
  case 0
  then have "j = i" by simp
  then show ?case
    by (simp add: exec_loop_download_here[OF assms(1,2,3)] split: prod.splits sum.splits)
next
  case (Suc n)
  then have lt: "j < length items" and n: "n = i - Suc j" and le: "Suc j \<le> i"
    using assms(2) by auto
  show ?case
    using lt Suc.hyps(1)[OF n le]
    by (subst exec_loop.simps) (simp split: prod.splits sum.splits step.splits)
qed


lemma quickBooksApiRequest_params:
  "quickBooksApiRequest (env\<lparr>getNodeParameter := g\<rparr>) = quickBooksApiRequest env"
  by (intro ext) (simp add: quickBooksApiRequest_def)

lemma request_entity_params:
  "request_entity (env\<lparr>getNodeParameter := g\<rparr>) = request_entity env"
  by (intro ext) (simp add: request_entity_def quickBooksApiRequest_params)

lemma dispatch_other_params:
  assumes "\<forall>n. n \<noteq> ''resource'' \<longrightarrow> n \<noteq> ''operation'' \<longrightarrow> g n i = getNodeParameter env n i"
  shows "dispatch (env\<lparr>getNodeParameter := g\<rparr>) items companyId resource operation i =
         dispatch env items companyId resource operation i"
  using assms
  by (simp add: dispatch_def create_with_lines_def create_plain_def get_entity_def get_all_def
      update_with_token_def update_with_ref_def delete_entity_def void_entity_def send_entity_def
      get_or_download_def getSyncToken_def getRefAndSyncToken_def request_entity_params
      quickBooksApiRequest_params populateFields_params Let_def cong: if_cong)

lemma exec_loop_other_params:
  assumes "\<forall>n i. n \<noteq> ''resource'' \<longrightarrow> n \<noteq> ''operation'' \<longrightarrow> g n i = getNodeParameter env n i"
  shows "exec_loop (env\<lparr>getNodeParameter := g\<rparr>) items companyId resource operation i
           responseData returnData tr =
         exec_loop env items companyId resource operation i responseData returnData tr"
proof (induction "length items - i" arbitrary: i responseData returnData tr)
  case 0
  then show ?case by (simp add: exec_loop.simps)
next
  case (Suc n)
  then have n: "n = length items - Suc i" by simp
  have d: "dispatch (env\<lparr>getNodeParameter := g\<rparr>) items companyId resource operation i =
         dispatch env items companyId resource operation i"
    using assms by (intro dispatch_other_params) simp
  show ?case
    by (subst exec_loop.simps, subst (2) exec_loop.simps)
       (simp add: d Suc.hyps(1)[OF n] split: prod.splits sum.splits step.splits)
qed

section \<open>Lemmas on what the branches send\<close>

















lemma exec_loop_first_item_tags:
  "exec_loop env items companyId (getNodeParameter env ''resource'' 0)
     (getNodeParameter env ''operation'' 0) i responseData returnData tr =
   exec_loop_per_item (env\<lparr>getNodeParameter := first_item_tags (getNodeParameter env)\<rparr>)
     items companyId i responseData returnData tr"
proof (induction "length items - i" arbitrary: i responseData returnData tr)
  case 0
  then show ?case by (simp add: exec_loop.simps exec_loop_per_item.simps)
next
  case (Suc n)
  then have n: "n = length items - Suc i" by simp
  have d: "dispatch (env\<lparr>getNodeParameter := first_item_tags (getNodeParameter env)\<rparr>) items
             companyId (getNodeParameter env ''resource'' 0) (getNodeParameter env ''operation'' 0) i
           = dispatch env items companyId (getNodeParameter env ''resource'' 0)
               (getNodeParameter env ''operation'' 0) i"
    by (intro dispatch_other_params) (simp add: first_item_tags_def)
  show ?case
    by (subst exec_loop.simps, subst exec_loop_per_item.simps)
       (simp add: d Suc.hyps(1)[OF n] first_item_tags_def[of _ "''resource''"]
          first_item_tags_def[of _ "''operation''"] split: prod.splits sum.splits step.splits)
qed


section \<open>Update with no field to update\<close>

text \<open>
  Claim C1, as amended. For every resource with an update branch (bill, customer,
  employee, estimate, invoice, payment, vendor): if the \<open>updateFields\<close> mapping is empty,
  the update fails and sends no mutation. The read of the token resolver is issued first,
  since each branch resolves the SyncToken (and the reference) before it looks at
  \<open>updateFields\<close>: exactly that one request is issued. When the read answers with the
  entity (and, for bill, estimate, invoice and payment, the entity carries the reference),
  the failure is the ValidationError whose message names the resource.
\<close>

theorem update_empty_fields:
  assumes "resource \<in> set update_resources"
      and "isEmpty (getNodeParameter env ''updateFields'' i)"
  shows "snd (dispatch env items companyId (JStr resource) (JStr ''update'') i tr)
           = tr @ [read_request env companyId resource i]
         \<and> (\<exists>e. fst (dispatch env items companyId (JStr resource) (JStr ''update'') i tr) = Inl e)
         \<and> (\<forall>resp ekvs.
               api env tr (read_request env companyId resource i) = Inr resp \<longrightarrow>
               lookup_js resp (capitalCase resource) = JObj ekvs \<longrightarrow>
               (\<forall>refName. update_ref_name resource = Some refName \<longrightarrow>
                    (\<exists>rkvs. lookup_js (JObj ekvs) refName = JObj rkvs)) \<longrightarrow>
               fst (dispatch env items companyId (JStr resource) (JStr ''update'') i tr) =
                 Inl (ValidationError
                   (''Please enter at least one field to update for the '' @ resource @ ''.'')))"
proof (cases "update_ref_name resource")
  case None
  then have d: "dispatch env items companyId (JStr resource) (JStr ''update'') i =
           assign (update_with_token env companyId resource (resource @ ''Id'') i)"
    using dispatch_update[OF assms(1)] by simp
  show ?thesis
    unfolding d snd_assign fst_assign
    using update_with_token_empty[OF assms(2), where companyId=companyId and resource=resource
        and idName="resource @ ''Id''" and tr=tr]
    by (auto simp del: lookup_js.simps)
next
  case (Some refName)
  then have d: "dispatch env items companyId (JStr resource) (JStr ''update'') i =
           assign (update_with_ref env companyId resource (resource @ ''Id'') refName i)"
    using dispatch_update[OF assms(1)] by simp
  show ?thesis
    unfolding d snd_assign fst_assign
    using update_with_ref_empty[OF assms(2), where companyId=companyId and resource=resource
        and idName="resource @ ''Id''" and refName=refName and tr=tr] Some
    by (auto simp del: lookup_js.simps)
qed

theorem update_empty_fields_witness:
  "dispatch (sample_env [ [(''invoiceId'', JStr ''55''), (''updateFields'', JObj [])] ]
               (fixed_api sample_entity))
     [JObj [] ] (JStr ''c1'') (JStr ''invoice'') (JStr ''update'') 0 [] =
   (Inl (ValidationError ''Please enter at least one field to update for the invoice.''),
    [\<lparr>r_method = ''GET'', r_endpoint = ''/v3/company/c1/invoice/55'',
      r_qs = JObj [], r_body = JObj []\<rparr>])"
  using update_empty_fields
    [of "''invoice''"
        "sample_env [ [(''invoiceId'', JStr ''55''), (''updateFields'', JObj [])] ]
               (fixed_api sample_entity)" 0 "[JObj [] ]" "JStr ''c1''" "[]"]
  by (simp add: update_resources_def sample_env_def item_params_def fixed_api_def
      sample_entity_def resource_keys_def read_request_def entity_endpoint_def
      resource_endpoint_def capitalCase_def update_ref_name_def prod_eq_iff)

text \<open>
  Claim C1 as stated fails: the invoice update on id "55" with empty \<open>updateFields\<close>
  issues an HTTP request, the read \<open>GET /v3/company/c1/invoice/55\<close>, before it fails.
\<close>

theorem update_empty_fields_counterexample:
  "snd (execute (sample_env [ [(''resource'', JStr ''invoice''), (''operation'', JStr ''update''),
                              (''invoiceId'', JStr ''55''), (''updateFields'', JObj [])] ]
                   (fixed_api sample_entity)) [JObj [] ] [])
   = [\<lparr>r_method = ''GET'', r_endpoint = ''/v3/company/c1/invoice/55'',
       r_qs = JObj [], r_body = JObj []\<rparr>]"
  by (simp add: execute_def exec_loop.simps dispatch_def assign_def update_with_ref_def
      getRefAndSyncToken_def bind_io_def quickBooksApiRequest_def lift_io_def throw_io_def
      return_io_def get_prop_def capitalCase_def
      sample_env_def item_params_def fixed_api_def
      sample_entity_def resource_keys_def entity_endpoint_def resource_endpoint_def)

section \<open>Account-based expense lines\<close>




section \<open>Routing\<close>

text \<open>
  Claim C3, as amended. The dispatcher reads the resource tag and the operation tag once,
  from the first input item (index 0), and routes every input item of the run to the
  branch of that one pair, each item being processed with its own values of the other
  parameters: \<open>execute\<close> does exactly what the per-item dispatcher of the specification
  does on the run in which every item carries the tags of the first item and its own
  values of every other parameter. Hence the tags of the later items have no influence on
  the run.
\<close>

theorem routing_by_first_item:
  "execute env items tr =
     execute_per_item (env\<lparr>getNodeParameter := first_item_tags (getNodeParameter env)\<rparr>) items tr
 \<and> (\<forall>g. (\<forall>n i. (n \<noteq> ''resource'' \<and> n \<noteq> ''operation'') \<or> i = 0
                   \<longrightarrow> g n i = getNodeParameter env n i) \<longrightarrow>
          execute (env\<lparr>getNodeParameter := g\<rparr>) items tr = execute env items tr)"
proof (intro conjI allI impI)
  show "execute env items tr =
     execute_per_item (env\<lparr>getNodeParameter := first_item_tags (getNodeParameter env)\<rparr>) items tr"
    by (simp add: execute_def execute_per_item_def exec_loop_first_item_tags)
next
  fix g
  assume a: "\<forall>n i. (n \<noteq> ''resource'' \<and> n \<noteq> ''operation'') \<or> i = 0
                   \<longrightarrow> g n i = getNodeParameter env n i"
  then have "\<forall>n i. n \<noteq> ''resource'' \<longrightarrow> n \<noteq> ''operation'' \<longrightarrow> g n i = getNodeParameter env n i"
    by blast
  from exec_loop_other_params[OF this] show
    "execute (env\<lparr>getNodeParameter := g\<rparr>) items tr = execute env items tr"
    using a by (simp add: execute_def)
qed

theorem routing_by_first_item_witness:
  "execute
     (sample_env [ [(''resource'', JStr ''customer''), (''operation'', JStr ''get''),
                   (''customerId'', JStr ''1'')],
                  [(''resource'', JStr ''item''), (''operation'', JStr ''get''),
                   (''customerId'', JStr ''2''), (''itemId'', JStr ''5'')] ]
        (fixed_api sample_entity))
     [JObj [], JObj [] ] [] =
   execute_per_item
     ((sample_env [ [(''resource'', JStr ''customer''), (''operation'', JStr ''get''),
                    (''customerId'', JStr ''1'')],
                   [(''resource'', JStr ''item''), (''operation'', JStr ''get''),
                    (''customerId'', JStr ''2''), (''itemId'', JStr ''5'')] ]
         (fixed_api sample_entity))
      \<lparr>getNodeParameter :=
         first_item_tags (item_params
           [ [(''resource'', JStr ''customer''), (''operation'', JStr ''get''),
              (''customerId'', JStr ''1'')],
             [(''resource'', JStr ''item''), (''operation'', JStr ''get''),
              (''customerId'', JStr ''2''), (''itemId'', JStr ''5'')] ])\<rparr>)
     [JObj [], JObj [] ] []
 \<and> execute
     ((sample_env [ [(''resource'', JStr ''customer''), (''operation'', JStr ''get''),
                    (''customerId'', JStr ''1'')],
                   [(''resource'', JStr ''item''), (''operation'', JStr ''get''),
                    (''customerId'', JStr ''2''), (''itemId'', JStr ''5'')] ]
         (fixed_api sample_entity))
      \<lparr>getNodeParameter :=
         (\<lambda>n i. if (n = ''resource'' \<or> n = ''operation'') \<and> 0 < i then JStr ''vendor''
                else item_params
                       [ [(''resource'', JStr ''customer''), (''operation'', JStr ''get''),
                         (''customerId'', JStr ''1'')],
                        [(''resource'', JStr ''item''), (''operation'', JStr ''get''),
                         (''customerId'', JStr ''2''), (''itemId'', JStr ''5'')] ] n i)\<rparr>)
     [JObj [], JObj [] ] [] =
   execute
     (sample_env [ [(''resource'', JStr ''customer''), (''operation'', JStr ''get''),
                   (''customerId'', JStr ''1'')],
                  [(''resource'', JStr ''item''), (''operation'', JStr ''get''),
                   (''customerId'', JStr ''2''), (''itemId'', JStr ''5'')] ]
        (fixed_api sample_entity))
     [JObj [], JObj [] ] []"
  using routing_by_first_item
    [where items="[JObj [], JObj [] ]" and tr="[]"
       and env="sample_env [ [(''resource'', JStr ''customer''), (''operation'', JStr ''get''),
                   (''customerId'', JStr ''1'')],
                  [(''resource'', JStr ''item''), (''operation'', JStr ''get''),
                   (''customerId'', JStr ''2''), (''itemId'', JStr ''5'')] ]
        (fixed_api sample_entity)", THEN conjunct1]
    routing_by_first_item
    [where items="[JObj [], JObj [] ]" and tr="[]"
       and env="sample_env [ [(''resource'', JStr ''customer''), (''operation'', JStr ''get''),
                   (''customerId'', JStr ''1'')],
                  [(''resource'', JStr ''item''), (''operation'', JStr ''get''),
                   (''customerId'', JStr ''2''), (''itemId'', JStr ''5'')] ]
        (fixed_api sample_entity)", THEN conjunct2, THEN spec,
     where x="\<lambda>n i. if (n = ''resource'' \<or> n = ''operation'') \<and> 0 < i then JStr ''vendor''
                else item_params
                       [ [(''resource'', JStr ''customer''), (''operation'', JStr ''get''),
                         (''customerId'', JStr ''1'')],
                        [(''resource'', JStr ''item''), (''operation'', JStr ''get''),
                         (''customerId'', JStr ''2''), (''itemId'', JStr ''5'')] ] n i"]
  by (simp add: sample_env_def)

text \<open>
  Claim C3 as stated fails: in a run of two items tagged customer/get and item/get, the
  second item is routed to the customer branch, where the dispatcher of the specification
  would route it to the item branch.
\<close>

theorem routing_by_first_item_counterexample:
  "snd (execute
          (sample_env [ [(''resource'', JStr ''customer''), (''operation'', JStr ''get''),
                        (''customerId'', JStr ''1'')],
                       [(''resource'', JStr ''item''), (''operation'', JStr ''get''),
                        (''customerId'', JStr ''2''), (''itemId'', JStr ''5'')] ]
             (fixed_api sample_entity))
          [JObj [], JObj [] ] []) =
     [\<lparr>r_method = ''GET'', r_endpoint = ''/v3/company/c1/customer/1'',
       r_qs = JObj [], r_body = JObj []\<rparr>,
      \<lparr>r_method = ''GET'', r_endpoint = ''/v3/company/c1/customer/2'',
       r_qs = JObj [], r_body = JObj []\<rparr>]
   \<and> snd (execute_per_item
          (sample_env [ [(''resource'', JStr ''customer''), (''operation'', JStr ''get''),
                        (''customerId'', JStr ''1'')],
                       [(''resource'', JStr ''item''), (''operation'', JStr ''get''),
                        (''customerId'', JStr ''2''), (''itemId'', JStr ''5'')] ]
             (fixed_api sample_entity))
          [JObj [], JObj [] ] []) =
     [\<lparr>r_method = ''GET'', r_endpoint = ''/v3/company/c1/customer/1'',
       r_qs = JObj [], r_body = JObj []\<rparr>,
      \<lparr>r_method = ''GET'', r_endpoint = ''/v3/company/c1/item/5'',
       r_qs = JObj [], r_body = JObj []\<rparr>]"
  by (simp add: execute_def execute_per_item_def exec_loop.simps exec_loop_per_item.simps
      get_entity_def push_response_def sample_defs run_defs)

section \<open>Pairs without a branch\<close>

text \<open>
  Claim C4, as amended. When the (resource, operation) pair of the run has no branch in
  \<open>execute\<close> (item/create, for one), no error is raised and no request is issued, but
  the loop still pushes \<open>responseData\<close>, which is undefined: one undefined record is
  appended to the output sequence for every input item, and the run continues to the last
  item.
\<close>

theorem unwired_pair_appends_undefined:
  assumes "\<not> wired (getNodeParameter env ''resource'' 0) (getNodeParameter env ''operation'' 0)"
  shows "execute env items tr = (Inr (JsonOutput (replicate (length items) JUndefined)), tr)"
  using exec_loop_unwired[OF assms, of env items "realmId env" 0 "[]" tr]
  by (simp add: execute_def)

theorem unwired_pair_appends_undefined_witness:
  "execute (sample_env [ [(''resource'', JStr ''item''), (''operation'', JStr ''create'')] ]
              (fixed_api sample_entity)) [JObj [], JObj [] ] [] =
     (Inr (JsonOutput [JUndefined, JUndefined]), [])"
  using unwired_pair_appends_undefined
          [of "sample_env [ [(''resource'', JStr ''item''), (''operation'', JStr ''create'')] ]
              (fixed_api sample_entity)" "[JObj [], JObj [] ]" "[]"]
  by (simp add: sample_env_def item_params_def wired_def wired_pairs_def numeral_2_eq_2)

text \<open>
  Claim C4 as stated fails: with item/create and one input item, the output sequence
  holds one record (undefined) instead of none.
\<close>

theorem unwired_pair_counterexample:
  "execute (sample_env [ [(''resource'', JStr ''item''), (''operation'', JStr ''create'')] ]
              (fixed_api sample_entity)) [JObj [] ] [] =
     (Inr (JsonOutput [JUndefined]), [])"
  by (simp add: execute_def exec_loop.simps dispatch_def return_io_def push_response_def
      sample_env_def item_params_def)

section \<open>Payment void\<close>

text \<open>
  Claim C5. A payment void on id "9", with SyncToken "3" resolved from the read that
  precedes it, sends as its mutation a POST to \<open>/v3/company/{companyId}/payment\<close> with
  the query parameters \<open>{Id: "9", SyncToken: "3", operation: "void"}\<close> and an empty
  request body. The theorem holds for any id and any token the read yields.
\<close>

theorem payment_void_request:
  assumes "getNodeParameter env ''paymentId'' i = ident"
      and "api env tr (read_request env companyId ''payment'' i) = Inr resp"
      and "lookup_js (lookup_js resp ''Payment'') ''SyncToken'' = tok"
      and "tok \<noteq> JUndefined"
  shows "snd (dispatch env items companyId (JStr ''payment'') (JStr ''void'') i tr) =
           tr @ [read_request env companyId ''payment'' i,
                 \<lparr>r_method = ''POST'',
                  r_endpoint = ''/v3/company/'' @ js_String companyId @ ''/payment'',
                  r_qs = JObj [(''Id'', ident), (''SyncToken'', tok), (''operation'', JStr ''void'')],
                  r_body = JObj []\<rparr>]"
proof -
  have tok: "getSyncToken env i companyId ''payment'' tr
             = (Inr tok, tr @ [read_request env companyId ''payment'' i])"
    using assms by (intro getSyncToken_ok) (simp_all add: capitalCase_def)
  have "dispatch env items companyId (JStr ''payment'') (JStr ''void'') i tr
        = assign (void_entity env companyId ''payment'' ''paymentId'' i) tr"
    by (simp add: dispatch_def)
  then show ?thesis
    using assms(1) tok
    by (simp add: snd_assign void_entity_def bind_io_def snd_request_entity
        resource_endpoint_def Let_def)
qed

theorem payment_void_request_witness:
  "snd (dispatch (sample_env [ [(''paymentId'', JStr ''9'')] ] (fixed_api sample_entity)) [JObj [] ]
          (JStr ''c1'') (JStr ''payment'') (JStr ''void'') 0 []) =
     [\<lparr>r_method = ''GET'', r_endpoint = ''/v3/company/c1/payment/9'',
       r_qs = JObj [], r_body = JObj []\<rparr>,
      \<lparr>r_method = ''POST'', r_endpoint = ''/v3/company/c1/payment'',
       r_qs = JObj [(''Id'', JStr ''9''), (''SyncToken'', JStr ''3''), (''operation'', JStr ''void'')],
       r_body = JObj []\<rparr>]"
  using payment_void_request
    [of "sample_env [ [(''paymentId'', JStr ''9'')] ] (fixed_api sample_entity)" 0 "JStr ''9''" "[]"
        "JStr ''c1''" "JObj (map (\<lambda>k. (k, sample_entity)) resource_keys)" "JStr ''3''" "[JObj [] ]"]
  by (simp add: sample_env_def item_params_def fixed_api_def sample_entity_def resource_keys_def
      read_request_def entity_endpoint_def resource_endpoint_def)

section \<open>Line validation on create\<close>

text \<open>
  Claim C6. For every create of bill, estimate or invoice: if the supplied line sequence
  is empty, or if some line is missing its detail type, its amount or its description,
  the operation fails with a ValidationError and the sequence of requests is left as it
  was, so that no network call is made. The two checks are the same for the three
  resources and come before any line is transformed: the result is the error, whatever
  else the lines hold.
\<close>

theorem create_rejects_bad_lines:
  assumes "resource \<in> set line_resources"
  shows "(getNodeParameter env ''Line'' i = JArr [] \<longrightarrow>
            dispatch env items companyId (JStr resource) (JStr ''create'') i tr =
              (Inl (ValidationError (''Please enter at least one line for the '' @ resource @ ''.'')), tr))
       \<and> (\<forall>ls. getNodeParameter env ''Line'' i = JArr ls \<longrightarrow>
                (\<forall>l\<in>set ls. l \<noteq> JUndefined \<and> l \<noteq> JNull) \<longrightarrow>
                (\<exists>l\<in>set ls. lookup_js l ''DetailType'' = JUndefined
                    \<or> lookup_js l ''Amount'' = JUndefined
                    \<or> lookup_js l ''Description'' = JUndefined) \<longrightarrow>
            dispatch env items companyId (JStr resource) (JStr ''create'') i tr =
              (Inl (ValidationError
                 ''Please enter detail type, amount and description for every line.''), tr))"
proof (intro conjI impI allI)
  assume "getNodeParameter env ''Line'' i = JArr []"
  then have "validate_lines resource (create_line_check resource) (getNodeParameter env ''Line'' i)
             = Inl (ValidationError (''Please enter at least one line for the '' @ resource @ ''.''))"
    by (simp add: validate_lines_def)
  then show "dispatch env items companyId (JStr resource) (JStr ''create'') i tr =
              (Inl (ValidationError (''Please enter at least one line for the '' @ resource @ ''.'')), tr)"
    unfolding dispatch_create_lines[OF assms]
    by (intro assign_Inl create_with_lines_invalid)
next
  fix ls
  assume l: "getNodeParameter env ''Line'' i = JArr ls"
    and ok: "\<forall>l\<in>set ls. l \<noteq> JUndefined \<and> l \<noteq> JNull"
    and bad: "\<exists>l\<in>set ls. lookup_js l ''DetailType'' = JUndefined
                    \<or> lookup_js l ''Amount'' = JUndefined
                    \<or> lookup_js l ''Description'' = JUndefined"
  from bad have ne: "ls \<noteq> []" by auto
  have "validate_lines resource (create_line_check resource) (getNodeParameter env ''Line'' i)
             = Inl (ValidationError ''Please enter detail type, amount and description for every line.'')"
    using ne bad by (simp add: validate_lines_def l lines_incomplete_iff[OF ok] del: lookup_js.simps)
  then show "dispatch env items companyId (JStr resource) (JStr ''create'') i tr =
              (Inl (ValidationError
                 ''Please enter detail type, amount and description for every line.''), tr)"
    unfolding dispatch_create_lines[OF assms]
    by (intro assign_Inl create_with_lines_invalid)
qed

theorem create_rejects_bad_lines_witness:
  "dispatch (sample_env [ [(''Line'', JArr [])] ] (fixed_api sample_entity)) [JObj [] ]
     (JStr ''c1'') (JStr ''invoice'') (JStr ''create'') 0 [] =
     (Inl (ValidationError ''Please enter at least one line for the invoice.''), [])
   \<and> dispatch (sample_env [ [(''Line'', JArr [JObj [(''DetailType'', JStr ''SalesItemLineDetail''),
                                                    (''Amount'', JNum ''100''), (''itemId'', JStr ''4'')] ])] ]
                 (fixed_api sample_entity)) [JObj [] ]
     (JStr ''c1'') (JStr ''invoice'') (JStr ''create'') 0 [] =
     (Inl (ValidationError ''Please enter detail type, amount and description for every line.''), [])"
  using create_rejects_bad_lines
          [of "''invoice''" "sample_env [ [(''Line'', JArr [])] ] (fixed_api sample_entity)" 0
              "[JObj [] ]" "JStr ''c1''" "[]"]
        create_rejects_bad_lines
          [of "''invoice''"
              "sample_env [ [(''Line'', JArr [JObj [(''DetailType'', JStr ''SalesItemLineDetail''),
                                                   (''Amount'', JNum ''100''), (''itemId'', JStr ''4'')] ])] ]
                 (fixed_api sample_entity)" 0
              "[JObj [] ]" "JStr ''c1''" "[]"]
  by (simp add: line_resources_def sample_env_def item_params_def)

section \<open>Updates are sparse\<close>



section \<open>The SyncToken is read afresh for every item\<close>



section \<open>Updates that carry a reference\<close>



section \<open>Download\<close>

text \<open>
  Claim C10. If the download flag is true for a get on estimate, invoice or payment at
  input item \<open>i\<close>, then \<open>execute\<close> returns at once what \<open>handleBinaryData\<close> returns
  for that item (or fails with its error): the loop, entered at item \<open>i\<close> with any
  records accumulated so far, ends there, with the requests of \<open>handleBinaryData\<close> as
  the last ones, so that no later item is processed; and the run as a whole never returns
  the accumulated records.
\<close>

theorem download_returns_at_once:
  assumes "resource \<in> set download_resources"
      and "i < length items"
      and "truthy (getNodeParameter env ''download'' i)"
  shows "exec_loop env items companyId (JStr resource) (JStr ''get'') i responseData returnData tr =
           (case handleBinaryData env items i companyId resource
                   (getNodeParameter env (resource @ ''Id'') i) tr of
              (Inl e, tr') \<Rightarrow> (Inl e, tr')
            | (Inr v, tr') \<Rightarrow> (Inr (BinaryOutput v), tr'))
       \<and> (getNodeParameter env ''resource'' 0 = JStr resource \<longrightarrow>
          getNodeParameter env ''operation'' 0 = JStr ''get'' \<longrightarrow>
          (\<forall>tr0 out. fst (execute env items tr0) \<noteq> Inr (JsonOutput out)))"
  using exec_loop_download_here[OF assms] exec_loop_download_before[OF assms, of 0]
  by (simp add: execute_def)

theorem download_returns_at_once_witness:
  "execute (sample_env [ [(''resource'', JStr ''invoice''), (''operation'', JStr ''get''),
                         (''invoiceId'', JStr ''1''), (''download'', JBool False)],
                        [(''invoiceId'', JStr ''2''), (''download'', JBool True)],
                        [(''invoiceId'', JStr ''3''), (''download'', JBool False)] ]
              (fixed_api sample_entity)) [JObj [], JObj [], JObj [] ] [] =
     (Inr (BinaryOutput (JStr ''pdf'')),
      [\<lparr>r_method = ''GET'', r_endpoint = ''/v3/company/c1/invoice/1'',
        r_qs = JObj [], r_body = JObj []\<rparr>])"
  using download_returns_at_once
          [of "''invoice''" 1 "[JObj [], JObj [], JObj [] ]"
              "sample_env [ [(''resource'', JStr ''invoice''), (''operation'', JStr ''get''),
                         (''invoiceId'', JStr ''1''), (''download'', JBool False)],
                        [(''invoiceId'', JStr ''2''), (''download'', JBool True)],
                        [(''invoiceId'', JStr ''3''), (''download'', JBool False)] ]
              (fixed_api sample_entity)"
              "JStr ''c1''" sample_entity "[sample_entity]"
              "[\<lparr>r_method = ''GET'', r_endpoint = ''/v3/company/c1/invoice/1'',
                 r_qs = JObj [], r_body = JObj []\<rparr>]"]
  by (simp add: execute_def exec_loop.simps[of _ _ _ _ _ 0] download_resources_def
      get_or_download_def get_entity_def push_response_def sample_defs run_defs)

end
